theory Spec2Isabelle
  imports Main "HOL-Library.Sublist" "HOL-Library.Char_ord" "HOL-Library.List_Lexorder"
begin

section \<open>Data model\<close>

text \<open>
  The records mirror the TypeScript interfaces of the dashboard page. Field names that
  occur in more than one interface (\<open>id\<close>, \<open>name\<close>, \<open>project_id\<close>) carry the name
  of their interface as a prefix, since record fields share one name space here.

  The page stores what it receives without checking it. The records hold the data that
  conform to the interfaces: every property that an interface declares is present and of
  the declared type. The one departure is the \<open>location\<close> of a project, which may be
  missing. Data that do not conform in another way (a weather answer without \<open>main\<close>, a
  location without \<open>lat\<close>) are outside the records, and every statement below about a
  state is about conforming data.
\<close>

text \<open>
  A number as it arrives in a JSON body: \<open>Decimal m k\<close> stands for \<open>m / 10 ^ k\<close>, so
  \<open>21.5\<close> is \<open>Decimal 215 1\<close>.
\<close>

datatype js_number = Decimal int nat

record plan =
  plan_id :: string
  task :: string
  start_date :: string
  plan_project_id :: string

record workflow =
  workflow_id :: string
  workflow_name :: string
  status :: string
  workflow_project_id :: string

record latlng =
  lat :: js_number
  lng :: js_number

text \<open>
  The interface declares \<open>location\<close> as an object. The rows come from the remote store
  unchecked, so the column may be null or absent at run time: that is \<open>None\<close>.
\<close>

record project =
  project_id :: string
  project_name :: string
  location :: "latlng option"

record weather_entry =
  description :: string

record weather_main =
  temp :: js_number

text \<open>
  The answer of the weather provider; its \<open>weather\<close> and \<open>name\<close> properties are the
  fields \<open>weather_list\<close> and \<open>city_name\<close>.
\<close>

record weather =
  main :: weather_main
  weather_list :: "weather_entry list"
  city_name :: string

text \<open>
  Values that reach a \<open>catch\<close> clause. The clauses tell an instance of \<open>Error\<close> from
  any other object, and read the \<open>message\<close> property, which another object may or may
  not have. The libraries throw and return objects only, so null and primitive values
  are left out.
\<close>

datatype js_object = ErrorInstance string | PlainObject "string option"

fun instanceof_Error :: "js_object \<Rightarrow> bool" where
  "instanceof_Error (ErrorInstance m) = True"
| "instanceof_Error (PlainObject m) = False"

fun message :: "js_object \<Rightarrow> string option" where
  "message (ErrorInstance m) = Some m"
| "message (PlainObject m) = m"

text \<open>An awaited promise either fulfils with a value or rejects with a thrown object.\<close>

datatype 'a awaited = Fulfilled 'a | Rejected js_object

text \<open>
  The answer of a query or of the identity provider is an object with a \<open>data\<close> and an
  \<open>error\<close> property; either may be null.
\<close>

record 'a response =
  data :: "'a list option"
  error :: "js_object option"

record auth_response =
  auth_error :: "js_object option"

datatype toast = ToastSuccess string | ToastError string

section \<open>The remote query builder\<close>

datatype query_filter = Gte string string | Lte string string | Eq string string

record query =
  from_table :: string
  select_columns :: string
  filters :: "query_filter list"

definition plans_query :: "string \<Rightarrow> query" where
  "plans_query today =
     \<lparr>from_table = ''plans'', select_columns = ''id, task, start_date, project_id'',
      filters = [Gte ''start_date'' today, Lte ''start_date'' today]\<rparr>"

definition workflows_query :: query where
  "workflows_query =
     \<lparr>from_table = ''workflows'', select_columns = ''id, name, status, project_id'',
      filters = [Eq ''status'' ''delayed'']\<rparr>"

definition projects_query :: query where
  "projects_query =
     \<lparr>from_table = ''projects'', select_columns = ''id, name, location'', filters = []\<rparr>"

section \<open>The dashboard data loader\<close>

text \<open>
  Everything outside the page is a parameter: the clock, the three remote collections
  as functions from the query sent to the awaited answer, the environment variable with
  the weather key, and the HTTP client as a function from the URL.
\<close>

record env =
  now_iso :: string
  supabase_plans :: "query \<Rightarrow> plan response awaited"
  supabase_workflows :: "query \<Rightarrow> workflow response awaited"
  supabase_projects :: "query \<Rightarrow> project response awaited"
  api_key :: "string option"
  axios_get :: "string \<Rightarrow> weather awaited"

record dashboard_state =
  plans :: "plan list"
  workflows :: "workflow list"
  projects :: "project list"
  weather :: "weather option"
  loading :: bool
  toasts :: "toast list"

definition initial_state :: dashboard_state where
  "initial_state =
     \<lparr>plans = [], workflows = [], projects = [], weather = None, loading = True,
      toasts = []\<rparr>"

text \<open>\<open>new Date().toISOString().split('T')[0]\<close>: the text before the first \<open>T\<close>.\<close>

definition today :: "env \<Rightarrow> string" where
  "today e = takeWhile (\<lambda>c. c \<noteq> CHR ''T'') (now_iso e)"

text \<open>\<open>await\<close> of a query followed by \<open>if (error) throw error\<close>; the result is \<open>data\<close>.\<close>

fun await_data :: "'a response awaited \<Rightarrow> js_object + 'a list option" where
  "await_data (Rejected x) = Inl x"
| "await_data (Fulfilled r) = (case error r of Some x \<Rightarrow> Inl x | None \<Rightarrow> Inr (data r))"

text \<open>\<open>d || []\<close> for \<open>d\<close> an array or null (an array is truthy even when empty).\<close>

fun or_empty :: "'a list option \<Rightarrow> 'a list" where
  "or_empty None = []"
| "or_empty (Some xs) = xs"

definition weather_url :: "env \<Rightarrow> string" where
  "weather_url e =
     ''https://api.openweathermap.org/data/2.5/weather?q=Kathmandu&appid=''
     @ (case api_key e of None \<Rightarrow> ''undefined'' | Some k \<Rightarrow> k)
     @ ''&units=metric''"

text \<open>
  The body of the \<open>try\<close> block: the state it has reached, and the object thrown if it
  was left early. The three setters run only after the check of their own query.
\<close>

definition fetch_try :: "env \<Rightarrow> dashboard_state \<Rightarrow> dashboard_state \<times> js_object option" where
  "fetch_try e s0 =
     (case await_data (supabase_plans e (plans_query (today e))) of
        Inl x \<Rightarrow> (s0, Some x)
      | Inr plansData \<Rightarrow>
          let s1 = s0\<lparr>plans := or_empty plansData\<rparr> in
          (case await_data (supabase_workflows e workflows_query) of
             Inl x \<Rightarrow> (s1, Some x)
           | Inr workflowsData \<Rightarrow>
               let s2 = s1\<lparr>workflows := or_empty workflowsData\<rparr> in
               (case await_data (supabase_projects e projects_query) of
                  Inl x \<Rightarrow> (s2, Some x)
                | Inr projectsData \<Rightarrow>
                    let s3 = s2\<lparr>projects := or_empty projectsData\<rparr> in
                    (case axios_get e (weather_url e) of
                       Rejected x \<Rightarrow> (s3, Some x)
                     | Fulfilled w \<Rightarrow> (s3\<lparr>weather := Some w\<rparr>, None)))))"

text \<open>The \<open>catch\<close> clause of the loader: the message of an \<open>Error\<close>, else a fixed text.\<close>

definition fetch_error_message :: "js_object \<Rightarrow> string" where
  "fetch_error_message x =
     (if instanceof_Error x then (case message x of Some m \<Rightarrow> m | None \<Rightarrow> ''undefined'')
      else ''An unexpected error occurred'')"

definition fetch_catch :: "js_object \<Rightarrow> dashboard_state \<Rightarrow> dashboard_state" where
  "fetch_catch x s =
     s\<lparr>toasts := toasts s @ [ToastError (''Error fetching data: '' @ fetch_error_message x)]\<rparr>"

definition fetchData :: "env \<Rightarrow> dashboard_state \<Rightarrow> dashboard_state" where
  "fetchData e s =
     (let (s1, thrown) = fetch_try e (s\<lparr>loading := True\<rparr>);
          s2 = (case thrown of None \<Rightarrow> s1 | Some x \<Rightarrow> fetch_catch x s1)
      in s2\<lparr>loading := False\<rparr>)"

section \<open>The remote collections\<close>

text \<open>
  Modelled from the spec: the hosted store that answers the queries is not part of this
  repository. The spec lists the collections as \<open>plans(id, task, start_date, project_id)\<close>
  and \<open>workflows(id, name, status, project_id)\<close> and says that the queries use the
  query builder's operators, \<open>gte\<close> and \<open>lte\<close> on the date and \<open>eq\<close> on the status. A
  filter names a column and a value; a row passes \<open>gte\<close> when its column is at least the
  value, \<open>lte\<close> when it is at most the value, \<open>eq\<close> when it is the value, and a query
  returns the rows that pass all of its filters. Column values are compared as text, which
  on dates written \<open>YYYY-MM-DD\<close> is the order of the calendar.
\<close>

definition plan_column :: "string \<Rightarrow> plan \<Rightarrow> string option" where
  "plan_column c p =
     (if c = ''id'' then Some (plan_id p)
      else if c = ''task'' then Some (task p)
      else if c = ''start_date'' then Some (start_date p)
      else if c = ''project_id'' then Some (plan_project_id p)
      else None)"

definition workflow_column :: "string \<Rightarrow> workflow \<Rightarrow> string option" where
  "workflow_column c w =
     (if c = ''id'' then Some (workflow_id w)
      else if c = ''name'' then Some (workflow_name w)
      else if c = ''status'' then Some (status w)
      else if c = ''project_id'' then Some (workflow_project_id w)
      else None)"

fun passes :: "(string \<Rightarrow> 'r \<Rightarrow> string option) \<Rightarrow> 'r \<Rightarrow> query_filter \<Rightarrow> bool" where
  "passes col r (Gte c v) = (case col c r of None \<Rightarrow> False | Some x \<Rightarrow> v \<le> x)"
| "passes col r (Lte c v) = (case col c r of None \<Rightarrow> False | Some x \<Rightarrow> x \<le> v)"
| "passes col r (Eq c v) = (case col c r of None \<Rightarrow> False | Some x \<Rightarrow> x = v)"

definition select_rows :: "(string \<Rightarrow> 'r \<Rightarrow> string option) \<Rightarrow> query \<Rightarrow> 'r list \<Rightarrow> 'r list" where
  "select_rows col q rows = filter (\<lambda>r. list_all (passes col r) (filters q)) rows"

definition remote_table ::
  "(string \<Rightarrow> 'r \<Rightarrow> string option) \<Rightarrow> 'r list \<Rightarrow> query \<Rightarrow> 'r response awaited" where
  "remote_table col rows q = Fulfilled \<lparr>data = Some (select_rows col q rows), error = None\<rparr>"

section \<open>Rendering the dashboard\<close>

text \<open>
  The page returns a tree whose paragraphs have strings and numbers as children; the text
  of a number is made when the tree is shown, by the number-to-string conversion of the
  language. A child is therefore kept as it is in the tree, and its text is computed apart.
\<close>

datatype child = Text string | Number js_number

text \<open>
  The decimal notation of a number: sign, integer digits and, when there are any, a point
  and the fraction digits without trailing zeros.
\<close>

definition digit_char :: "int \<Rightarrow> char" where
  "digit_char d = ''0123456789'' ! nat d"

function digits :: "int \<Rightarrow> string" where
  "digits n = (if n < 10 then [digit_char n] else digits (n div 10) @ [digit_char (n mod 10)])"
  by pat_completeness auto
termination
  by (relation "measure nat") auto

declare digits.simps [simp del]

definition fraction_digits :: "nat \<Rightarrow> int \<Rightarrow> string" where
  "fraction_digits k f =
     (let ds = digits f; padded = replicate (k - length ds) (CHR ''0'') @ ds
      in rev (dropWhile (\<lambda>c. c = CHR ''0'') (rev padded)))"

fun decimal_notation :: "js_number \<Rightarrow> string" where
  "decimal_notation (Decimal m k) =
     (let a = \<bar>m\<bar>; fr = (if k = 0 then [] else fraction_digits k (a mod 10 ^ k))
      in (if m < 0 then ''-'' else []) @ digits (a div 10 ^ k)
         @ (if fr = [] then [] else CHR ''.'' # fr))"

text \<open>
  The language prints a number in decimal notation, digit for digit, when the number is
  zero, or has at most fifteen significant digits and a size from \<open>10\<^sup>-\<^sup>6\<close> up to, and
  not including, \<open>10\<^sup>2\<^sup>1\<close>. Outside that range it rounds to the nearest floating-point
  number or prints an exponent; those texts are not given here, and the conversion
  answers \<open>None\<close>.
\<close>

function significand :: "int \<Rightarrow> int" where
  "significand n = (if 0 < n \<and> n mod 10 = 0 then significand (n div 10) else n)"
  by pat_completeness auto
termination
  by (relation "measure nat") auto

declare significand.simps [simp del]

fun in_decimal_range :: "js_number \<Rightarrow> bool" where
  "in_decimal_range (Decimal m k) =
     (let a = \<bar>m\<bar>
      in a = 0 \<or> (significand a < 10 ^ 15 \<and> 10 ^ k \<le> a * 10 ^ 6 \<and> a < 10 ^ (21 + k)))"

definition number_to_string :: "js_number \<Rightarrow> string option" where
  "number_to_string n = (if in_decimal_range n then Some (decimal_notation n) else None)"

fun child_text :: "child \<Rightarrow> string option" where
  "child_text (Text t) = Some t"
| "child_text (Number n) = number_to_string n"

text \<open>The text of a paragraph: the texts of its children, one after the other.\<close>

fun paragraph_text :: "child list \<Rightarrow> string option" where
  "paragraph_text [] = Some []"
| "paragraph_text (c # cs) =
     (case child_text c of
        None \<Rightarrow> None
      | Some t \<Rightarrow> (case paragraph_text cs of None \<Rightarrow> None | Some u \<Rightarrow> Some (t @ u)))"

text \<open>The degree sign, U+00B0, in the UTF-8 encoding of the page, followed by \<open>C\<close>.\<close>

definition degrees_C :: string where
  "degrees_C = [CHR 0xC2, CHR 0xB0, CHR ''C'']"

text \<open>
  What a panel with a list shows: one item per record, or a note when the list is empty.
\<close>

datatype list_panel = Items "string list" | Note string

record marker =
  marker_key :: string
  position :: "js_number \<times> js_number"
  popup :: string

record grid =
  plans_panel :: list_panel
  workflows_panel :: list_panel
  weather_panel :: "child list list"
  markers :: "marker list"

datatype view = LoadingView | GridView grid

text \<open>
  \<open>TypeError p\<close>: the property \<open>p\<close> was read from undefined or null while rendering.
  The page has no error boundary, so the exception takes the whole page down.
\<close>

datatype render_error = TypeError string

definition render_plans :: "plan list \<Rightarrow> list_panel" where
  "render_plans ps = (if length ps \<noteq> 0 then Items (map task ps) else Note ''No plans for today.'')"

definition render_workflows :: "workflow list \<Rightarrow> list_panel" where
  "render_workflows ws =
     (if length ws \<noteq> 0 then Items (map workflow_name ws) else Note ''No lagging workflows.'')"

fun render_weather :: "weather option \<Rightarrow> render_error + child list list" where
  "render_weather None = Inr [[Text ''Loading weather...'']]"
| "render_weather (Some w) =
     (case weather_list w of
        [] \<Rightarrow> Inl (TypeError ''description'')
      | x # _ \<Rightarrow>
          Inr [[Text (description x), Text '' in '', Text (city_name w)],
               [Number (temp (main w)), Text degrees_C]])"

text \<open>The text of each paragraph of the weather panel, as it is shown.\<close>

definition shown_weather :: "weather option \<Rightarrow> render_error + string option list" where
  "shown_weather w =
     (case render_weather w of Inl x \<Rightarrow> Inl x | Inr ps \<Rightarrow> Inr (map paragraph_text ps))"

definition render_marker :: "project \<Rightarrow> render_error + marker" where
  "render_marker p =
     (case location p of
        None \<Rightarrow> Inl (TypeError ''lat'')
      | Some l \<Rightarrow>
          Inr \<lparr>marker_key = project_id p, position = (lat l, lng l), popup = project_name p\<rparr>)"

text \<open>\<open>projects.map\<close> with a callback that may throw: the first exception ends the map.\<close>

fun render_markers :: "project list \<Rightarrow> render_error + marker list" where
  "render_markers [] = Inr []"
| "render_markers (p # ps) =
     (case render_marker p of
        Inl x \<Rightarrow> Inl x
      | Inr m \<Rightarrow> (case render_markers ps of Inl x \<Rightarrow> Inl x | Inr ms \<Rightarrow> Inr (m # ms)))"

text \<open>
  The page: the loading note, or the grid of panels in the order of the source (the
  chart between the weather and the map is a constant and is left out).
\<close>

definition Dashboard :: "dashboard_state \<Rightarrow> render_error + view" where
  "Dashboard s =
     (if loading s then Inr LoadingView
      else
        (case render_weather (weather s) of
           Inl x \<Rightarrow> Inl x
         | Inr wp \<Rightarrow>
             (case render_markers (projects s) of
                Inl x \<Rightarrow> Inl x
              | Inr ms \<Rightarrow>
                  Inr (GridView
                    \<lparr>plans_panel = render_plans (plans s),
                     workflows_panel = render_workflows (workflows s),
                     weather_panel = wp, markers = ms\<rparr>))))"

section \<open>The login form\<close>

record login_state =
  email :: string
  password :: string
  login_loading :: bool
  login_toasts :: "toast list"
  navigations :: "string list"

definition initial_login :: login_state where
  "initial_login =
     \<lparr>email = [], password = [], login_loading = False, login_toasts = [], navigations = []\<rparr>"

text \<open>The identity provider, a parameter: from the email and the password to its answer.\<close>

type_synonym identity_provider = "string \<Rightarrow> string \<Rightarrow> auth_response awaited"

definition login_try :: "identity_provider \<Rightarrow> login_state \<Rightarrow> login_state \<times> js_object option" where
  "login_try signInWithPassword s0 =
     (case signInWithPassword (email s0) (password s0) of
        Rejected x \<Rightarrow> (s0, Some x)
      | Fulfilled r \<Rightarrow>
          (case auth_error r of
             Some x \<Rightarrow> (s0, Some x)
           | None \<Rightarrow>
               (s0\<lparr>login_toasts := login_toasts s0 @ [ToastSuccess ''Login successful!''],
                   navigations := navigations s0 @ [''/dashboard'']\<rparr>, None)))"

text \<open>A string is truthy when it is not empty; an absent property is undefined, falsy.\<close>

fun truthy :: "string option \<Rightarrow> bool" where
  "truthy None = False"
| "truthy (Some m) = (m \<noteq> [])"

text \<open>
  The \<open>catch\<close> clause of the form: the message when the object is an \<open>Error\<close> or has a
  truthy \<open>message\<close> property, else a fixed text.
\<close>

definition login_error_message :: "js_object \<Rightarrow> string" where
  "login_error_message x =
     (if instanceof_Error x \<or> truthy (message x)
      then (case message x of Some m \<Rightarrow> m | None \<Rightarrow> ''undefined'')
      else ''An unexpected error occurred'')"

definition login_catch :: "js_object \<Rightarrow> login_state \<Rightarrow> login_state" where
  "login_catch x s =
     s\<lparr>login_toasts := login_toasts s @ [ToastError (''Login failed: '' @ login_error_message x)]\<rparr>"

definition handleEmailLogin :: "identity_provider \<Rightarrow> login_state \<Rightarrow> login_state" where
  "handleEmailLogin signInWithPassword s =
     (let (s1, thrown) = login_try signInWithPassword (s\<lparr>login_loading := True\<rparr>);
          s2 = (case thrown of None \<Rightarrow> s1 | Some x \<Rightarrow> login_catch x s1)
      in s2\<lparr>login_loading := False\<rparr>)"

section \<open>Sample data\<close>

text \<open>Concrete records and surroundings on which the theorems below are exercised.\<close>

definition plan_a :: plan where
  "plan_a = \<lparr>plan_id = ''p1'', task = ''Pour foundation'', start_date = ''2024-05-01'',
     plan_project_id = ''pr1''\<rparr>"

definition plan_b :: plan where
  "plan_b = \<lparr>plan_id = ''p2'', task = ''Inspect scaffolding'', start_date = ''2024-05-02'',
     plan_project_id = ''pr1''\<rparr>"

definition workflow_a :: workflow where
  "workflow_a = \<lparr>workflow_id = ''w1'', workflow_name = ''Steel delivery'', status = ''delayed'',
     workflow_project_id = ''pr1''\<rparr>"

definition workflow_b :: workflow where
  "workflow_b = \<lparr>workflow_id = ''w2'', workflow_name = ''Site survey'', status = ''on_track'',
     workflow_project_id = ''pr1''\<rparr>"

definition project_a :: project where
  "project_a = \<lparr>project_id = ''pr1'', project_name = ''Ring Road Bridge'',
     location = Some \<lparr>lat = Decimal 277172 4, lng = Decimal 85324 3\<rparr>\<rparr>"

definition project_b :: project where
  "project_b = \<lparr>project_id = ''pr2'', project_name = ''Depot'', location = None\<rparr>"

definition project_c :: project where
  "project_c = \<lparr>project_id = ''pr3'', project_name = ''Hospital Wing'',
     location = Some \<lparr>lat = Decimal 2767 2, lng = Decimal 8543 2\<rparr>\<rparr>"

definition kathmandu :: weather where
  "kathmandu = \<lparr>main = \<lparr>temp = Decimal 215 1\<rparr>, weather_list = [\<lparr>description = ''clear sky''\<rparr>],
     city_name = ''Kathmandu''\<rparr>"

definition no_conditions :: weather where
  "no_conditions = \<lparr>main = \<lparr>temp = Decimal 215 1\<rparr>, weather_list = [], city_name = ''Kathmandu''\<rparr>"

definition sample_env :: env where
  "sample_env =
     \<lparr>now_iso = ''2024-05-01T08:30:00.000Z'',
      supabase_plans = remote_table plan_column [plan_a, plan_b],
      supabase_workflows = remote_table workflow_column [workflow_a, workflow_b],
      supabase_projects = (\<lambda>q. Fulfilled \<lparr>data = Some [project_a], error = None\<rparr>),
      api_key = Some ''key'',
      axios_get = (\<lambda>url. Fulfilled kathmandu)\<rparr>"

text \<open>The plans query answers with an error that is an instance of \<open>Error\<close>.\<close>

definition plans_fail_env :: env where
  "plans_fail_env =
     sample_env\<lparr>supabase_plans :=
       (\<lambda>q. Fulfilled \<lparr>data = None, error = Some (ErrorInstance ''permission denied'')\<rparr>)\<rparr>"

text \<open>
  The workflows query answers with the error object of the query builder: it has a
  \<open>message\<close> property and is not an instance of \<open>Error\<close>.
\<close>

definition workflows_fail_env :: env where
  "workflows_fail_env =
     sample_env\<lparr>supabase_workflows :=
       (\<lambda>q. Fulfilled \<lparr>data = None, error = Some (PlainObject (Some ''permission denied''))\<rparr>)\<rparr>"

text \<open>The weather answer has an empty \<open>weather\<close> array.\<close>

definition no_conditions_env :: env where
  "no_conditions_env = sample_env\<lparr>axios_get := (\<lambda>url. Fulfilled no_conditions)\<rparr>"

text \<open>One of the projects has no location.\<close>

definition no_location_env :: env where
  "no_location_env =
     sample_env\<lparr>supabase_projects :=
       (\<lambda>q. Fulfilled \<lparr>data = Some [project_a, project_b], error = None\<rparr>)\<rparr>"

text \<open>Every query answers without error and with null data.\<close>

definition null_data_env :: env where
  "null_data_env =
     sample_env\<lparr>supabase_plans := (\<lambda>q. Fulfilled \<lparr>data = None, error = None\<rparr>),
                supabase_workflows := (\<lambda>q. Fulfilled \<lparr>data = None, error = None\<rparr>),
                supabase_projects := (\<lambda>q. Fulfilled \<lparr>data = None, error = None\<rparr>)\<rparr>"

definition provider_accepts :: identity_provider where
  "provider_accepts em pw = Fulfilled \<lparr>auth_error = None\<rparr>"

definition provider_refuses :: identity_provider where
  "provider_refuses em pw =
     Fulfilled \<lparr>auth_error = Some (ErrorInstance ''Invalid login credentials'')\<rparr>"

definition filled_login :: login_state where
  "filled_login = initial_login\<lparr>email := ''ana@example.com'', password := ''secret''\<rparr>"

section \<open>The loader, step by step\<close>

text \<open>
  What the \<open>try\<close> block returns in each of its five ways out, and what a whole run
  leaves in each panel.
\<close>

lemma fetch_try_plans_fail:
  "await_data (supabase_plans e (plans_query (today e))) = Inl x \<Longrightarrow> fetch_try e s = (s, Some x)"
  by (simp add: fetch_try_def)

lemma fetch_try_workflows_fail:
  "await_data (supabase_plans e (plans_query (today e))) = Inr pd \<Longrightarrow>
   await_data (supabase_workflows e workflows_query) = Inl x \<Longrightarrow>
   fetch_try e s = (s\<lparr>plans := or_empty pd\<rparr>, Some x)"
  by (simp add: fetch_try_def)

lemma fetch_try_projects_fail:
  "await_data (supabase_plans e (plans_query (today e))) = Inr pd \<Longrightarrow>
   await_data (supabase_workflows e workflows_query) = Inr wd \<Longrightarrow>
   await_data (supabase_projects e projects_query) = Inl x \<Longrightarrow>
   fetch_try e s = (s\<lparr>plans := or_empty pd, workflows := or_empty wd\<rparr>, Some x)"
  by (simp add: fetch_try_def)

lemma fetch_try_weather_fail:
  "await_data (supabase_plans e (plans_query (today e))) = Inr pd \<Longrightarrow>
   await_data (supabase_workflows e workflows_query) = Inr wd \<Longrightarrow>
   await_data (supabase_projects e projects_query) = Inr jd \<Longrightarrow>
   axios_get e (weather_url e) = Rejected x \<Longrightarrow>
   fetch_try e s =
     (s\<lparr>plans := or_empty pd, workflows := or_empty wd, projects := or_empty jd\<rparr>, Some x)"
  by (simp add: fetch_try_def)

lemma fetch_try_success:
  "await_data (supabase_plans e (plans_query (today e))) = Inr pd \<Longrightarrow>
   await_data (supabase_workflows e workflows_query) = Inr wd \<Longrightarrow>
   await_data (supabase_projects e projects_query) = Inr jd \<Longrightarrow>
   axios_get e (weather_url e) = Fulfilled w \<Longrightarrow>
   fetch_try e s =
     (s\<lparr>plans := or_empty pd, workflows := or_empty wd, projects := or_empty jd,
        weather := Some w\<rparr>, None)"
  by (simp add: fetch_try_def)

lemma plans_fetchData:
  "plans (fetchData e s) =
     (case await_data (supabase_plans e (plans_query (today e))) of
        Inl x \<Rightarrow> plans s | Inr d \<Rightarrow> or_empty d)"
  by (simp add: fetchData_def fetch_try_def fetch_catch_def Let_def
      split: sum.splits awaited.splits option.splits)

lemma workflows_fetchData:
  "workflows (fetchData e s) =
     (case await_data (supabase_plans e (plans_query (today e))) of
        Inl x \<Rightarrow> workflows s
      | Inr pd \<Rightarrow>
          (case await_data (supabase_workflows e workflows_query) of
             Inl x \<Rightarrow> workflows s | Inr d \<Rightarrow> or_empty d))"
  by (simp add: fetchData_def fetch_try_def fetch_catch_def Let_def
      split: sum.splits awaited.splits option.splits)

lemma projects_fetchData:
  "projects (fetchData e s) =
     (case await_data (supabase_plans e (plans_query (today e))) of
        Inl x \<Rightarrow> projects s
      | Inr pd \<Rightarrow>
          (case await_data (supabase_workflows e workflows_query) of
             Inl x \<Rightarrow> projects s
           | Inr wd \<Rightarrow>
               (case await_data (supabase_projects e projects_query) of
                  Inl x \<Rightarrow> projects s | Inr d \<Rightarrow> or_empty d)))"
  by (simp add: fetchData_def fetch_try_def fetch_catch_def Let_def
      split: sum.splits awaited.splits option.splits)

lemma fetchData_thrown:
  "fetch_try e (s\<lparr>loading := True\<rparr>) = (s1, Some x) \<Longrightarrow>
   fetchData e s = (fetch_catch x s1)\<lparr>loading := False\<rparr>"
  by (simp add: fetchData_def)

lemma toasts_fetch_try: "toasts (fst (fetch_try e s)) = toasts s"
  by (simp add: fetch_try_def Let_def split: sum.splits awaited.splits)

lemma loading_fetch_try: "loading (fst (fetch_try e s)) = loading s"
  by (simp add: fetch_try_def Let_def split: sum.splits awaited.splits)

lemma loading_fetchData: "loading (fetchData e s) = False"
  by (simp add: fetchData_def split: prod.splits option.splits)

text \<open>
  A run that ends in the \<open>catch\<close> clause adds one notification and leaves every panel as
  the \<open>try\<close> block left it.
\<close>

lemma fetchData_catch_frame:
  assumes "fetch_try e (s\<lparr>loading := True\<rparr>) = (s1, Some x)"
  shows "toasts (fetchData e s)
           = toasts s @ [ToastError (''Error fetching data: '' @ fetch_error_message x)]"
    and "plans (fetchData e s) = plans s1"
    and "workflows (fetchData e s) = workflows s1"
    and "projects (fetchData e s) = projects s1"
    and "weather (fetchData e s) = weather s1"
proof -
  have "toasts s1 = toasts s"
    using toasts_fetch_try [of e "s\<lparr>loading := True\<rparr>"] assms by simp
  then show "toasts (fetchData e s)
           = toasts s @ [ToastError (''Error fetching data: '' @ fetch_error_message x)]"
    by (simp add: fetchData_thrown [OF assms] fetch_catch_def)
qed (simp_all add: fetchData_thrown [OF assms] fetch_catch_def)

lemma fetch_error_message_Error: "fetch_error_message (ErrorInstance m) = m"
  by (simp add: fetch_error_message_def)

text \<open>The first load against the sample surroundings.\<close>

lemma fetchData_sample:
  "fetchData sample_env initial_state =
     \<lparr>plans = [plan_a], workflows = [workflow_a], projects = [project_a],
      weather = Some kathmandu, loading = False, toasts = []\<rparr>"
  by code_simp

section \<open>The queries against the remote collections\<close>

lemma select_plans:
  "select_rows plan_column (plans_query D) rows = filter (\<lambda>p. start_date p = D) rows"
  by (auto simp: select_rows_def plans_query_def plan_column_def intro: filter_cong)

lemma select_workflows:
  "select_rows workflow_column workflows_query rows = filter (\<lambda>w. status w = ''delayed'') rows"
  by (auto simp: select_rows_def workflows_query_def workflow_column_def intro: filter_cong)

section \<open>Rendering without exception\<close>

lemma render_markers_located:
  "list_all (\<lambda>p. location p \<noteq> None) ps \<Longrightarrow>
   \<exists>ms. render_markers ps = Inr ms \<and> length ms = length ps \<and>
        map popup ms = map project_name ps"
proof (induction ps)
  case Nil
  then show ?case by simp
next
  case (Cons p ps)
  then obtain ms where ms: "render_markers ps = Inr ms" "length ms = length ps"
      "map popup ms = map project_name ps"
    by auto
  from Cons.prems obtain l where "location p = Some l" by auto
  with ms show ?case by (simp add: render_marker_def)
qed

lemma render_weather_total:
  "(case w of None \<Rightarrow> True | Some r \<Rightarrow> weather_list r \<noteq> []) \<Longrightarrow> \<exists>wp. render_weather w = Inr wp"
  by (cases w) (auto split: list.splits)

section \<open>The claims\<close>

text \<open>
  C1, as amended. When the plans query fails (it answers with an error, or its promise
  rejects), the run stops there: the workflows and the projects panel keep the values they
  had before the run, and one error notification is added, whose text starts with
  \<open>Error fetching data: \<close> and, for an error that is an instance of \<open>Error\<close>, continues
  with the message of that error.
\<close>

theorem plans_failure_keeps_other_panels:
  assumes "await_data (supabase_plans e (plans_query (today e))) = Inl x"
  shows "workflows (fetchData e s) = workflows s \<and>
         projects (fetchData e s) = projects s \<and>
         (\<exists>t. toasts (fetchData e s) = toasts s @ [ToastError (''Error fetching data: '' @ t)] \<and>
              (\<forall>m. x = ErrorInstance m \<longrightarrow> t = m))"
proof -
  have run: "fetchData e s = (fetch_catch x (s\<lparr>loading := True\<rparr>))\<lparr>loading := False\<rparr>"
    using assms by (simp add: fetchData_thrown fetch_try_plans_fail)
  have "toasts (fetchData e s)
          = toasts s @ [ToastError (''Error fetching data: '' @ fetch_error_message x)]"
    by (simp add: run fetch_catch_def)
  moreover have "\<forall>m. x = ErrorInstance m \<longrightarrow> fetch_error_message x = m"
    by (simp add: fetch_error_message_def)
  ultimately show ?thesis
    using assms by (auto simp: workflows_fetchData projects_fetchData)
qed

text \<open>The theorem above on a first load whose plans query is refused.\<close>

text \<open>The theorem above on a first load whose plans query is refused.\<close>

theorem plans_failure_keeps_other_panels_witness:
  "await_data (supabase_plans plans_fail_env (plans_query (today plans_fail_env)))
     = Inl (ErrorInstance ''permission denied'') \<and>
   workflows (fetchData plans_fail_env initial_state) = workflows initial_state \<and>
   projects (fetchData plans_fail_env initial_state) = projects initial_state \<and>
   (\<exists>t. toasts (fetchData plans_fail_env initial_state)
          = toasts initial_state @ [ToastError (''Error fetching data: '' @ t)] \<and>
        (\<forall>m. ErrorInstance ''permission denied'' = ErrorInstance m \<longrightarrow> t = m))"
proof -
  have h: "await_data (supabase_plans plans_fail_env (plans_query (today plans_fail_env)))
     = Inl (ErrorInstance ''permission denied'')"
    by (simp add: plans_fail_env_def)
  from plans_failure_keeps_other_panels [OF h, of initial_state] h show ?thesis
    by simp
qed

text \<open>
  The claim as the spec has it, that the two panels still receive their own results,
  fails on that first load: the workflows and the projects query would have answered with
  one record each, and both panels stay empty.
\<close>

text \<open>
  The claim as the spec has it, that the two panels still receive their own results,
  fails on that first load: the workflows and the projects query would have answered with
  one record each, and both panels stay empty.
\<close>

theorem plans_failure_cascades:
  "await_data (supabase_plans plans_fail_env (plans_query (today plans_fail_env)))
     = Inl (ErrorInstance ''permission denied'') \<and>
   await_data (supabase_workflows plans_fail_env workflows_query) = Inr (Some [workflow_a]) \<and>
   await_data (supabase_projects plans_fail_env projects_query) = Inr (Some [project_a]) \<and>
   workflows (fetchData plans_fail_env initial_state) \<noteq> [workflow_a] \<and>
   projects (fetchData plans_fail_env initial_state) \<noteq> [project_a]"
  by code_simp

text \<open>
  C10. The loading flag of the dashboard is true while the \<open>try\<close> block of the loader
  runs and false after every run, whatever the requests answer; the loading flag of the
  login form is true while the sign-in is attempted and false after every attempt.
\<close>

text \<open>
  C2, as amended. For fetched data that conform to the declared interfaces (every
  declared property present and of its declared type, the location of a project being
  allowed to be null or absent), rendering the dashboard ends without an exception in
  every state whose weather is null or has at least one entry in its \<open>weather\<close> array,
  and whose projects all have a location. The conformance is that of the records
  \<open>plan\<close>, \<open>workflow\<close>, \<open>project\<close> and \<open>weather\<close>, over which the state ranges.
\<close>

theorem render_total_on_complete_data:
  assumes "case weather s of None \<Rightarrow> True | Some r \<Rightarrow> weather_list r \<noteq> []"
    and "list_all (\<lambda>p. location p \<noteq> None) (projects s)"
  shows "\<exists>v. Dashboard s = Inr v"
proof -
  from assms(1) obtain wp where "render_weather (weather s) = Inr wp"
    using render_weather_total by blast
  moreover from assms(2) obtain ms where "render_markers (projects s) = Inr ms"
    using render_markers_located by blast
  ultimately show ?thesis by (simp add: Dashboard_def)
qed

text \<open>The theorem above on the state after the first load of the sample surroundings.\<close>

theorem render_total_on_complete_data_witness:
  "(case weather (fetchData sample_env initial_state) of
      None \<Rightarrow> True | Some r \<Rightarrow> weather_list r \<noteq> []) \<and>
   list_all (\<lambda>p. location p \<noteq> None) (projects (fetchData sample_env initial_state)) \<and>
   (\<exists>v. Dashboard (fetchData sample_env initial_state) = Inr v)"
proof -
  have w: "case weather (fetchData sample_env initial_state) of
      None \<Rightarrow> True | Some r \<Rightarrow> weather_list r \<noteq> []"
    by (simp add: fetchData_sample kathmandu_def)
  have l: "list_all (\<lambda>p. location p \<noteq> None) (projects (fetchData sample_env initial_state))"
    by (simp add: fetchData_sample project_a_def)
  from render_total_on_complete_data [OF w l] w l show ?thesis by blast
qed

text \<open>
  The claim as the spec has it, for every combination of fetched data, fails on a weather
  answer with an empty \<open>weather\<close> array and on a project without location: reading
  \<open>weather.weather[0].description\<close> and \<open>project.location.lat\<close> throws while rendering.
\<close>

theorem render_crashes_on_incomplete_data:
  "Dashboard (fetchData no_conditions_env initial_state) = Inl (TypeError ''description'') \<and>
   Dashboard (fetchData no_location_env initial_state) = Inl (TypeError ''lat'')"
  by code_simp

text \<open>
  C3. For a date \<open>D\<close> and every collection of plan records, the query that the loader
  builds, with the filters \<open>start_date \<ge> D\<close> and \<open>start_date \<le> D\<close>, selects the plans
  whose start date is \<open>D\<close> and no others; and a run of the loader against a collection
  \<open>rows\<close> leaves in the plans panel the rows whose start date is the current date.
\<close>

theorem plans_query_selects_today:
  "select_rows plan_column (plans_query D) rows = filter (\<lambda>p. start_date p = D) rows \<and>
   (supabase_plans e = remote_table plan_column rows \<longrightarrow>
      plans (fetchData e s) = filter (\<lambda>p. start_date p = today e) rows)"
  by (simp add: select_plans plans_fetchData remote_table_def)

text \<open>The theorem above on two plans, one of them of the current date.\<close>

theorem plans_query_selects_today_witness:
  "select_rows plan_column (plans_query ''2024-05-01'') [plan_a, plan_b] = [plan_a] \<and>
   supabase_plans sample_env = remote_table plan_column [plan_a, plan_b] \<and>
   today sample_env = ''2024-05-01'' \<and>
   plans (fetchData sample_env initial_state) = [plan_a]"
proof -
  have r: "supabase_plans sample_env = remote_table plan_column [plan_a, plan_b]"
    by (simp add: sample_env_def)
  have t: "today sample_env = ''2024-05-01''"
    by (simp add: today_def sample_env_def)
  have f: "filter (\<lambda>p. start_date p = ''2024-05-01'') [plan_a, plan_b] = [plan_a]"
    by (simp add: plan_a_def plan_b_def)
  from plans_query_selects_today [of "''2024-05-01''" "[plan_a, plan_b]" sample_env initial_state]
    r t f show ?thesis by simp
qed

text \<open>
  C4. An email and password sign-in whose provider answers without error navigates to
  \<open>/dashboard\<close>; one whose provider answers with an error that has a message does not
  navigate, and adds one failure notification whose text contains that message.
\<close>

theorem login_navigates_or_reports:
  "(signIn (email s) (password s) = Fulfilled \<lparr>auth_error = None\<rparr> \<longrightarrow>
      navigations (handleEmailLogin signIn s) = navigations s @ [''/dashboard'']) \<and>
   (signIn (email s) (password s) = Fulfilled \<lparr>auth_error = Some x\<rparr> \<and> message x = Some m \<longrightarrow>
      navigations (handleEmailLogin signIn s) = navigations s \<and>
      (\<exists>t. login_toasts (handleEmailLogin signIn s) = login_toasts s @ [ToastError t] \<and>
           sublist m t))"
proof -
  have "sublist m (''Login failed: '' @ login_error_message x)" if "message x = Some m"
  proof (cases "m = []")
    case True
    then show ?thesis by simp
  next
    case False
    with that have "login_error_message x = m"
      by (simp add: login_error_message_def)
    then show ?thesis
      unfolding sublist_def by (intro exI [of _ "''Login failed: ''"] exI [of _ "[]"]) simp
  qed
  then show ?thesis
    by (auto simp: handleEmailLogin_def login_try_def login_catch_def)
qed

text \<open>The theorem above on an accepted and on a refused sign-in.\<close>

theorem login_navigates_or_reports_witness:
  "provider_accepts (email filled_login) (password filled_login) = Fulfilled \<lparr>auth_error = None\<rparr> \<and>
   navigations (handleEmailLogin provider_accepts filled_login) = [''/dashboard''] \<and>
   provider_refuses (email filled_login) (password filled_login)
     = Fulfilled \<lparr>auth_error = Some (ErrorInstance ''Invalid login credentials'')\<rparr> \<and>
   message (ErrorInstance ''Invalid login credentials'') = Some ''Invalid login credentials'' \<and>
   navigations (handleEmailLogin provider_refuses filled_login) = [] \<and>
   (\<exists>t. login_toasts (handleEmailLogin provider_refuses filled_login) = [ToastError t] \<and>
        sublist ''Invalid login credentials'' t)"
proof -
  have a: "provider_accepts (email filled_login) (password filled_login)
             = Fulfilled \<lparr>auth_error = None\<rparr>"
    by (simp add: provider_accepts_def)
  have r: "provider_refuses (email filled_login) (password filled_login)
             = Fulfilled \<lparr>auth_error = Some (ErrorInstance ''Invalid login credentials'')\<rparr>"
    by (simp add: provider_refuses_def)
  have n: "navigations filled_login = []" "login_toasts filled_login = []"
    by (simp_all add: filled_login_def initial_login_def)
  from login_navigates_or_reports [of provider_accepts filled_login]
    login_navigates_or_reports [of provider_refuses filled_login
      "ErrorInstance ''Invalid login credentials''" "''Invalid login credentials''"]
    a r n
  show ?thesis by simp
qed

text \<open>
  C5, as amended. For every collection of workflow records, a run of the loader whose
  plans query has not failed, and whose workflows query is answered by the store, leaves
  in the workflows panel the records whose status is \<open>delayed\<close> and no others, and the
  panel shows the name of each of them, or its note when there is none.
\<close>

theorem workflows_panel_delayed:
  assumes "await_data (supabase_plans e (plans_query (today e))) = Inr d"
    and "supabase_workflows e = remote_table workflow_column rows"
  shows "workflows (fetchData e s) = filter (\<lambda>w. status w = ''delayed'') rows \<and>
         render_workflows (workflows (fetchData e s)) =
           (if filter (\<lambda>w. status w = ''delayed'') rows = [] then Note ''No lagging workflows.''
            else Items (map workflow_name (filter (\<lambda>w. status w = ''delayed'') rows)))"
proof -
  have "workflows (fetchData e s) = filter (\<lambda>w. status w = ''delayed'') rows"
    using assms by (simp add: workflows_fetchData remote_table_def select_workflows)
  then show ?thesis by (simp add: render_workflows_def)
qed

text \<open>The theorem above on two workflows, one of them delayed.\<close>

theorem workflows_panel_delayed_witness:
  "await_data (supabase_plans sample_env (plans_query (today sample_env))) = Inr (Some [plan_a]) \<and>
   supabase_workflows sample_env = remote_table workflow_column [workflow_a, workflow_b] \<and>
   workflows (fetchData sample_env initial_state) = [workflow_a] \<and>
   render_workflows (workflows (fetchData sample_env initial_state)) = Items [''Steel delivery'']"
proof -
  have p: "await_data (supabase_plans sample_env (plans_query (today sample_env)))
             = Inr (Some [plan_a])"
    by code_simp
  have r: "supabase_workflows sample_env = remote_table workflow_column [workflow_a, workflow_b]"
    by (simp add: sample_env_def)
  from workflows_panel_delayed [OF p r, of initial_state] p r show ?thesis
    by (auto simp: workflow_a_def workflow_b_def)
qed

text \<open>
  The claim as the spec has it, for every collection and with no condition on the plans
  query, fails on a first load whose plans query is refused: the store holds a delayed
  workflow, the workflows query is never sent, and the panel stays empty and shows its
  note.
\<close>

theorem workflows_panel_empty_after_plans_failure:
  "supabase_workflows plans_fail_env = remote_table workflow_column [workflow_a, workflow_b] \<and>
   status workflow_a = ''delayed'' \<and>
   filter (\<lambda>w. status w = ''delayed'') [workflow_a, workflow_b] = [workflow_a] \<and>
   workflows (fetchData plans_fail_env initial_state) = [] \<and>
   render_workflows (workflows (fetchData plans_fail_env initial_state))
     = Note ''No lagging workflows.''"
proof -
  have "supabase_workflows plans_fail_env = remote_table workflow_column [workflow_a, workflow_b]"
    by (simp add: plans_fail_env_def sample_env_def)
  moreover have "status workflow_a = ''delayed''"
    by (simp add: workflow_a_def)
  moreover have "filter (\<lambda>w. status w = ''delayed'') [workflow_a, workflow_b] = [workflow_a]"
    by (simp add: workflow_a_def workflow_b_def)
  moreover have "workflows (fetchData plans_fail_env initial_state) = []"
    by code_simp
  moreover have "render_workflows (workflows (fetchData plans_fail_env initial_state))
     = Note ''No lagging workflows.''"
    by code_simp
  ultimately show ?thesis by blast
qed

text \<open>
  C6. With the weather answer \<open>{main: {temp: 21.5}, weather: [{description: "clear sky"}],
  name: "Kathmandu"}\<close> in the weather state, the weather panel shows the two lines
  \<open>clear sky in Kathmandu\<close> and \<open>21.5\<close> followed by the degree sign (the bytes C2 B0 of
  its UTF-8 encoding) and \<open>C\<close>: as the text of the panel's paragraphs, and as the
  paragraphs of the page past loading.
\<close>

theorem kathmandu_weather_panel:
  "shown_weather (Some kathmandu) =
     Inr [Some ''clear sky in Kathmandu'', Some (''21.5'' @ [CHR 0xC2, CHR 0xB0, CHR ''C''])] \<and>
   Dashboard (initial_state\<lparr>weather := Some kathmandu, loading := False\<rparr>) =
     Inr (GridView \<lparr>plans_panel = Note ''No plans for today.'',
                    workflows_panel = Note ''No lagging workflows.'',
                    weather_panel =
                      [[Text ''clear sky'', Text '' in '', Text ''Kathmandu''],
                       [Number (Decimal 215 1), Text [CHR 0xC2, CHR 0xB0, CHR ''C'']]],
                    markers = []\<rparr>) \<and>
   map paragraph_text
     [[Text ''clear sky'', Text '' in '', Text ''Kathmandu''],
      [Number (Decimal 215 1), Text [CHR 0xC2, CHR 0xB0, CHR ''C'']]] =
     [Some ''clear sky in Kathmandu'', Some (''21.5'' @ [CHR 0xC2, CHR 0xB0, CHR ''C''])]"
proof -
  have printed: "number_to_string (Decimal 215 1) = Some ''21.5''"
    by code_simp
  have panel: "render_weather (Some kathmandu) =
      Inr [[Text ''clear sky'', Text '' in '', Text ''Kathmandu''],
           [Number (Decimal 215 1), Text [CHR 0xC2, CHR 0xB0, CHR ''C'']]]"
    by (simp add: kathmandu_def degrees_C_def)
  have texts: "map paragraph_text
      [[Text ''clear sky'', Text '' in '', Text ''Kathmandu''],
       [Number (Decimal 215 1), Text [CHR 0xC2, CHR 0xB0, CHR ''C'']]] =
      [Some ''clear sky in Kathmandu'', Some (''21.5'' @ [CHR 0xC2, CHR 0xB0, CHR ''C''])]"
    by (simp add: printed [simplified])
  have shown: "shown_weather (Some kathmandu) =
      Inr [Some ''clear sky in Kathmandu'', Some (''21.5'' @ [CHR 0xC2, CHR 0xB0, CHR ''C''])]"
    unfolding shown_weather_def panel using texts by simp
  have page: "Dashboard (initial_state\<lparr>weather := Some kathmandu, loading := False\<rparr>) =
     Inr (GridView \<lparr>plans_panel = Note ''No plans for today.'',
                    workflows_panel = Note ''No lagging workflows.'',
                    weather_panel =
                      [[Text ''clear sky'', Text '' in '', Text ''Kathmandu''],
                       [Number (Decimal 215 1), Text [CHR 0xC2, CHR 0xB0, CHR ''C'']]],
                    markers = []\<rparr>)"
    unfolding Dashboard_def using panel
    by (simp add: initial_state_def render_plans_def render_workflows_def)
  from shown page texts show ?thesis by blast
qed

text \<open>
  C7. For every list of projects that all have a location, the map expression yields one
  marker per project, in order, and the popup of each marker is the name of its project;
  when the page is past loading and the weather panel renders, these are the markers of
  the page.
\<close>

theorem one_marker_per_project:
  assumes "list_all (\<lambda>p. location p \<noteq> None) (projects s)"
  shows "\<exists>ms. render_markers (projects s) = Inr ms \<and>
              length ms = length (projects s) \<and>
              map popup ms = map project_name (projects s) \<and>
              (\<not> loading s \<and> (case weather s of None \<Rightarrow> True | Some r \<Rightarrow> weather_list r \<noteq> []) \<longrightarrow>
                 (\<exists>g. Dashboard s = Inr (GridView g) \<and> markers g = ms))"
proof -
  from assms obtain ms where ms: "render_markers (projects s) = Inr ms"
      "length ms = length (projects s)" "map popup ms = map project_name (projects s)"
    using render_markers_located by blast
  have "\<exists>g. Dashboard s = Inr (GridView g) \<and> markers g = ms"
    if "\<not> loading s" "case weather s of None \<Rightarrow> True | Some r \<Rightarrow> weather_list r \<noteq> []"
  proof -
    from that(2) obtain wp where "render_weather (weather s) = Inr wp"
      using render_weather_total by blast
    with that(1) ms(1) show ?thesis by (simp add: Dashboard_def)
  qed
  with ms show ?thesis by blast
qed

text \<open>The theorem above on two projects.\<close>

theorem one_marker_per_project_witness:
  "list_all (\<lambda>p. location p \<noteq> None)
     (projects (initial_state\<lparr>projects := [project_a, project_c], loading := False\<rparr>)) \<and>
   (\<exists>ms. render_markers [project_a, project_c] = Inr ms \<and> length ms = 2 \<and>
         map popup ms = [''Ring Road Bridge'', ''Hospital Wing''] \<and>
         (\<exists>g. Dashboard (initial_state\<lparr>projects := [project_a, project_c], loading := False\<rparr>)
                = Inr (GridView g) \<and> markers g = ms))"
proof -
  let ?s = "initial_state\<lparr>projects := [project_a, project_c], loading := False\<rparr>"
  have l: "list_all (\<lambda>p. location p \<noteq> None) (projects ?s)"
    by (simp add: project_a_def project_c_def)
  have w: "weather ?s = None" "loading ?s = False" "projects ?s = [project_a, project_c]"
    by (simp_all add: initial_state_def)
  have n: "project_name project_a = ''Ring Road Bridge''" "project_name project_c = ''Hospital Wing''"
    by (simp_all add: project_a_def project_c_def)
  from one_marker_per_project [OF l] obtain ms where
    "render_markers (projects ?s) = Inr ms" "length ms = length (projects ?s)"
    "map popup ms = map project_name (projects ?s)"
    "\<not> loading ?s \<and> (case weather ?s of None \<Rightarrow> True | Some r \<Rightarrow> weather_list r \<noteq> []) \<longrightarrow>
       (\<exists>g. Dashboard ?s = Inr (GridView g) \<and> markers g = ms)"
    by blast
  with w n l show ?thesis by auto
qed

text \<open>
  C8. The claim asks that every failing request is reported with the message of the
  underlying error, and that the panels filled before the failure keep their values. On a
  run whose workflows query answers with the error object of the query builder, which has
  a message and is not an instance of \<open>Error\<close>, the plans panel filled before keeps its
  value, and the notification carries the fixed text in place of the message.
\<close>

theorem plain_error_message_lost:
  "await_data (supabase_workflows workflows_fail_env workflows_query)
     = Inl (PlainObject (Some ''permission denied'')) \<and>
   plans (fetchData workflows_fail_env initial_state) = [plan_a] \<and>
   toasts (fetchData workflows_fail_env initial_state)
     = [ToastError ''Error fetching data: An unexpected error occurred''] \<and>
   \<not> sublist ''permission denied'' ''Error fetching data: An unexpected error occurred''"
  by code_simp

text \<open>
  C9. The three panels start as the empty list; a run leaves in each panel either the
  value it had or the data of its query passed through the fallback to the empty list; so
  a query that answers without error and with null data leaves its panel empty.
\<close>

theorem panels_fall_back_to_empty:
  "plans initial_state = [] \<and> workflows initial_state = [] \<and> projects initial_state = [] \<and>
   plans (fetchData e s) =
     (case await_data (supabase_plans e (plans_query (today e))) of
        Inl x \<Rightarrow> plans s | Inr d \<Rightarrow> or_empty d) \<and>
   workflows (fetchData e s) =
     (case await_data (supabase_plans e (plans_query (today e))) of
        Inl x \<Rightarrow> workflows s
      | Inr pd \<Rightarrow>
          (case await_data (supabase_workflows e workflows_query) of
             Inl x \<Rightarrow> workflows s | Inr d \<Rightarrow> or_empty d)) \<and>
   projects (fetchData e s) =
     (case await_data (supabase_plans e (plans_query (today e))) of
        Inl x \<Rightarrow> projects s
      | Inr pd \<Rightarrow>
          (case await_data (supabase_workflows e workflows_query) of
             Inl x \<Rightarrow> projects s
           | Inr wd \<Rightarrow>
               (case await_data (supabase_projects e projects_query) of
                  Inl x \<Rightarrow> projects s | Inr d \<Rightarrow> or_empty d))) \<and>
   or_empty None = ([] :: plan list) \<and>
   (await_data (supabase_plans e (plans_query (today e))) = Inr None \<longrightarrow>
      plans (fetchData e s) = []) \<and>
   (await_data (supabase_plans e (plans_query (today e))) = Inr pd \<and>
    await_data (supabase_workflows e workflows_query) = Inr None \<longrightarrow>
      workflows (fetchData e s) = []) \<and>
   (await_data (supabase_plans e (plans_query (today e))) = Inr pd \<and>
    await_data (supabase_workflows e workflows_query) = Inr wd \<and>
    await_data (supabase_projects e projects_query) = Inr None \<longrightarrow>
      projects (fetchData e s) = [])"
  by (simp add: initial_state_def plans_fetchData workflows_fetchData projects_fetchData)

text \<open>The theorem above on filled panels and a second run whose queries answer null.\<close>

theorem panels_fall_back_to_empty_witness:
  "plans (fetchData sample_env initial_state) = [plan_a] \<and>
   workflows (fetchData sample_env initial_state) = [workflow_a] \<and>
   projects (fetchData sample_env initial_state) = [project_a] \<and>
   await_data (supabase_plans null_data_env (plans_query (today null_data_env))) = Inr None \<and>
   await_data (supabase_workflows null_data_env workflows_query) = Inr None \<and>
   await_data (supabase_projects null_data_env projects_query) = Inr None \<and>
   plans (fetchData null_data_env (fetchData sample_env initial_state)) = [] \<and>
   workflows (fetchData null_data_env (fetchData sample_env initial_state)) = [] \<and>
   projects (fetchData null_data_env (fetchData sample_env initial_state)) = []"
proof -
  have before: "plans (fetchData sample_env initial_state) = [plan_a]"
    "workflows (fetchData sample_env initial_state) = [workflow_a]"
    "projects (fetchData sample_env initial_state) = [project_a]"
    by code_simp+
  have p: "await_data (supabase_plans null_data_env (plans_query (today null_data_env))) = Inr None"
    by (simp add: null_data_env_def)
  have w: "await_data (supabase_workflows null_data_env workflows_query) = Inr None"
    by (simp add: null_data_env_def)
  have j: "await_data (supabase_projects null_data_env projects_query) = Inr None"
    by (simp add: null_data_env_def)
  from panels_fall_back_to_empty
    [of null_data_env "fetchData sample_env initial_state" None None] before p w j
  show ?thesis by simp
qed

text \<open>
  C10. The loading flag of the dashboard is true while the \<open>try\<close> block of the loader
  runs and false after every run, whatever the requests answer; the loading flag of the
  login form is true while the sign-in is attempted and false after every attempt.
\<close>

theorem loading_flags_reset:
  "loading (fst (fetch_try e (s\<lparr>loading := True\<rparr>))) = True \<and>
   loading (fetchData e s) = False \<and>
   login_loading (fst (login_try signIn (t\<lparr>login_loading := True\<rparr>))) = True \<and>
   login_loading (handleEmailLogin signIn t) = False"
proof -
  have "login_loading (fst (login_try signIn (t\<lparr>login_loading := True\<rparr>))) = True"
    by (simp add: login_try_def split: awaited.splits option.splits)
  moreover have "login_loading (handleEmailLogin signIn t) = False"
    by (simp add: handleEmailLogin_def split: prod.splits option.splits)
  ultimately show ?thesis
    by (simp add: loading_fetch_try loading_fetchData)
qed

text \<open>The same on a run whose workflows query fails and on a refused sign-in.\<close>

text \<open>The same on a run whose workflows query fails and on a refused sign-in.\<close>

theorem loading_flags_reset_witness:
  "loading (fetchData workflows_fail_env initial_state) = False \<and>
   login_loading (handleEmailLogin provider_refuses initial_login) = False"
  using loading_flags_reset [of workflows_fail_env initial_state provider_refuses initial_login]
  by simp

end
